theory Spec2Isabelle
  imports Main "HOL-Library.Word"
begin

section \<open>Python values, exceptions and library primitives\<close>

text \<open>
  The handlers of \<^verbatim>\<open>src/mcp.py\<close> take strings and return \<^verbatim>\<open>Dict[str, Any]\<close>.
  A Python value is a \<open>pyval\<close>; these are exactly the values \<^verbatim>\<open>json.loads\<close>
  produces. A \<^verbatim>\<open>float\<close> is kept as its 64-bit pattern (no handler computes with it),
  an \<^verbatim>\<open>int\<close> is unbounded, a \<^verbatim>\<open>dict\<close> is the list of its items in insertion order.
  A \<^verbatim>\<open>str\<close> is a \<open>string\<close>, one \<open>char\<close> per code point, so \<^verbatim>\<open>len\<close> is \<open>length\<close>.
\<close>

datatype pyval =
    VNone
  | VBool bool
  | VInt int
  | VFloat "64 word"
  | VStr string
  | VList "pyval list"
  | VDict "(string \<times> pyval) list"

type_synonym pydict = "(string \<times> pyval) list"

text \<open>
  Instances of \<^verbatim>\<open>Exception\<close>, each with its \<^verbatim>\<open>str(e)\<close>. The source tells
  \<^verbatim>\<open>json.JSONDecodeError\<close> from every other \<^verbatim>\<open>Exception\<close>; the other classes are the
  ones the modelled primitives raise. \<^verbatim>\<open>except Exception\<close> catches all of them.
\<close>

datatype exn =
    JSONDecodeError string
  | ValueError string
  | TypeError string
  | AttributeError string
  | IndexError string
  | KeyError string
  | OSError string
  | RecursionError string
  | OtherException string

fun str_exn :: "exn \<Rightarrow> string" where
  "str_exn (JSONDecodeError m) = m"
| "str_exn (ValueError m) = m"
| "str_exn (TypeError m) = m"
| "str_exn (AttributeError m) = m"
| "str_exn (IndexError m) = m"
| "str_exn (KeyError m) = m"
| "str_exn (OSError m) = m"
| "str_exn (RecursionError m) = m"
| "str_exn (OtherException m) = m"

text \<open>Sequencing of calls that may raise: the first exception ends the block.\<close>

definition bind_exn :: "exn + 'a \<Rightarrow> ('a \<Rightarrow> exn + 'b) \<Rightarrow> exn + 'b" where
  "bind_exn m f = (case m of Inl e \<Rightarrow> Inl e | Inr x \<Rightarrow> f x)"

text \<open>\<^verbatim>\<open>str(n)\<close> for an \<^verbatim>\<open>int\<close>: decimal digits, with a minus sign.\<close>

function str_nat :: "nat \<Rightarrow> string" where
  "str_nat n = (if n < 10 then [char_of (48 + n)] else str_nat (n div 10) @ [char_of (48 + n mod 10)])"
  by pat_completeness auto
termination
  by (relation "measure id") auto

definition str_int :: "int \<Rightarrow> string" where
  "str_int i = (if i < 0 then CHR ''-'' # str_nat (nat (- i)) else str_nat (nat i))"

text \<open>\<^verbatim>\<open>type(v).__name__\<close>.\<close>

fun type_name :: "pyval \<Rightarrow> string" where
  "type_name VNone = ''NoneType''"
| "type_name (VBool b) = ''bool''"
| "type_name (VInt i) = ''int''"
| "type_name (VFloat f) = ''float''"
| "type_name (VStr s) = ''str''"
| "type_name (VList xs) = ''list''"
| "type_name (VDict kvs) = ''dict''"

definition quoted :: "string \<Rightarrow> string" where
  "quoted s = [CHR 0x27] @ s @ [CHR 0x27]"

text \<open>
  \<^verbatim>\<open>obj.get(key, default)\<close>: only a \<^verbatim>\<open>dict\<close> has the method; on any other JSON value the
  attribute lookup raises \<^verbatim>\<open>AttributeError\<close>.
\<close>

fun py_get :: "pyval \<Rightarrow> string \<Rightarrow> pyval \<Rightarrow> exn + pyval" where
  "py_get (VDict kvs) k d = Inr (case map_of kvs k of Some v \<Rightarrow> v | None \<Rightarrow> d)"
| "py_get v k d =
     Inl (AttributeError (quoted (type_name v) @ '' object has no attribute '' @ quoted ''get''))"

text \<open>
  \<^verbatim>\<open>obj[0]\<close>: the first item of a list or string (\<^verbatim>\<open>IndexError\<close> when empty), \<^verbatim>\<open>KeyError\<close> on
  a dict (its keys are strings), \<^verbatim>\<open>TypeError\<close> on a value that is not subscriptable.
\<close>

fun py_getitem0 :: "pyval \<Rightarrow> exn + pyval" where
  "py_getitem0 (VList []) = Inl (IndexError ''list index out of range'')"
| "py_getitem0 (VList (x # xs)) = Inr x"
| "py_getitem0 (VStr []) = Inl (IndexError ''string index out of range'')"
| "py_getitem0 (VStr (c # cs)) = Inr (VStr [c])"
| "py_getitem0 (VDict kvs) = Inl (KeyError ''0'')"
| "py_getitem0 v = Inl (TypeError (quoted (type_name v) @ '' object is not subscriptable''))"

text \<open>
  \<^verbatim>\<open>max(f(x) for x in xs)\<close>: the generator is consumed item by item, so the first item that
  raises ends it (\<open>collect\<close>); \<^verbatim>\<open>max\<close> of no items raises \<^verbatim>\<open>ValueError\<close>.
\<close>

fun collect :: "(exn + 'a) list \<Rightarrow> exn + 'a list" where
  "collect [] = Inr []"
| "collect (r # rs) =
     (case r of
        Inl e \<Rightarrow> Inl e
      | Inr x \<Rightarrow> (case collect rs of Inl e \<Rightarrow> Inl e | Inr xs \<Rightarrow> Inr (x # xs)))"

fun py_max :: "int list \<Rightarrow> exn + int" where
  "py_max [] = Inl (ValueError ''max() arg is an empty sequence'')"
| "py_max (x # xs) = Inr (fold max xs x)"

text \<open>
  \<^verbatim>\<open>random.choice(seq)\<close> with the generator's draw \<open>r\<close>: an item of the sequence,
  \<^verbatim>\<open>IndexError\<close> on an empty one.
\<close>

definition random_choice :: "nat \<Rightarrow> 'a list \<Rightarrow> exn + 'a" where
  "random_choice r xs =
     (if xs = [] then Inl (IndexError ''Cannot choose from an empty sequence'')
      else Inr (xs ! (r mod length xs)))"

text \<open>\<^verbatim>\<open>d[key]\<close> on a dict literal of the source.\<close>

definition py_getitem :: "pydict \<Rightarrow> string \<Rightarrow> exn + pyval" where
  "py_getitem d k = (case map_of d k of Some v \<Rightarrow> Inr v | None \<Rightarrow> Inl (KeyError (quoted k)))"


section \<open>The JSON analyzer\<close>

text \<open>
  \<^verbatim>\<open>_count_nested_levels(obj, level=0)\<close>, lines 299-310. The function calls itself once
  per nesting level of the value, from inside the generator expression handed to
  \<^verbatim>\<open>max\<close>, and Python bounds the depth of its call stack: a call that would pass
  \<^verbatim>\<open>sys.getrecursionlimit()\<close> raises \<^verbatim>\<open>RecursionError\<close> instead of running. Every level
  costs the same number of stack entries, so the bound is counted in levels: \<open>room\<close> is
  the number of nested calls of the function that still fit below the current one, and
  \<open>overflow\<close> is the \<^verbatim>\<open>str(e)\<close> of the \<^verbatim>\<open>RecursionError\<close>. The exception leaves the
  generator and \<^verbatim>\<open>max\<close>, as any exception of an item does.
\<close>

fun count_nested_levels :: "string \<Rightarrow> nat \<Rightarrow> pyval \<Rightarrow> int \<Rightarrow> exn + int" where
  "count_nested_levels overflow room (VDict kvs) level =
     (if kvs = [] then Inr level
      else (case collect (map (\<lambda>kv.
                    if room = 0 then Inl (RecursionError overflow)
                    else count_nested_levels overflow (room - 1) (snd kv) (level + 1)) kvs) of
              Inl e \<Rightarrow> Inl e
            | Inr ls \<Rightarrow> py_max ls))"
| "count_nested_levels overflow room (VList xs) level =
     (if xs = [] then Inr level
      else (case collect (map (\<lambda>item.
                    if room = 0 then Inl (RecursionError overflow)
                    else count_nested_levels overflow (room - 1) item (level + 1)) xs) of
              Inl e \<Rightarrow> Inl e
            | Inr ls \<Rightarrow> py_max ls))"
| "count_nested_levels overflow room VNone level = Inr level"
| "count_nested_levels overflow room (VBool b) level = Inr level"
| "count_nested_levels overflow room (VInt i) level = Inr level"
| "count_nested_levels overflow room (VFloat f) level = Inr level"
| "count_nested_levels overflow room (VStr s) level = Inr level"

text \<open>
  The nesting depth as the claim words it: 0 for a value that is no container and for an
  empty dict or list, 1 plus the maximum depth of the children otherwise.
\<close>

fun nesting_depth :: "pyval \<Rightarrow> int" where
  "nesting_depth (VDict kvs) =
     (if kvs = [] then 0 else 1 + Max (set (map (\<lambda>kv. nesting_depth (snd kv)) kvs)))"
| "nesting_depth (VList xs) =
     (if xs = [] then 0 else 1 + Max (set (map nesting_depth xs)))"
| "nesting_depth VNone = 0"
| "nesting_depth (VBool b) = 0"
| "nesting_depth (VInt i) = 0"
| "nesting_depth (VFloat f) = 0"
| "nesting_depth (VStr s) = 0"

text \<open>
  \<^verbatim>\<open>process_json_data(json_string)\<close>, lines 260-297. \<^verbatim>\<open>json.loads\<close> is the standard
  library's and is a parameter: a function from the string to the parsed value or to the
  exception it raises. \<open>overflow\<close> and \<open>room\<close> are the stack bound at the call of
  \<^verbatim>\<open>_count_nested_levels\<close> in line 278. \<open>process_json_data_try\<close> is the body of the
  \<^verbatim>\<open>try\<close>; \<open>process_json_data\<close> adds the two \<^verbatim>\<open>except\<close> clauses, in the source's
  order.
\<close>

definition json_analysis :: "string \<Rightarrow> nat \<Rightarrow> pyval \<Rightarrow> string \<Rightarrow> exn + pyval" where
  "json_analysis overflow room data json_string =
     bind_exn (count_nested_levels overflow room data 0) (\<lambda>nested.
       Inr (VDict
         [(''type'', VStr (type_name data)),
          (''size'', VInt (int (length json_string))),
          (''keys'', (case data of VDict kvs \<Rightarrow> VList (map (\<lambda>kv. VStr (fst kv)) kvs) | _ \<Rightarrow> VNone)),
          (''length'', (case data of
                          VDict kvs \<Rightarrow> VInt (int (length kvs))
                        | VList xs \<Rightarrow> VInt (int (length xs))
                        | _ \<Rightarrow> VNone)),
          (''nested_levels'', VInt nested)]))"

definition process_json_data_try ::
    "(string \<Rightarrow> exn + pyval) \<Rightarrow> string \<Rightarrow> nat \<Rightarrow> string \<Rightarrow> exn + pydict" where
  "process_json_data_try loads overflow room json_string =
     bind_exn (loads json_string) (\<lambda>data.
     bind_exn (json_analysis overflow room data json_string) (\<lambda>analysis.
       Inr [(''success'', VBool True),
            (''data'', data),
            (''analysis'', analysis),
            (''valid'', VBool True)]))"

definition process_json_data ::
    "(string \<Rightarrow> exn + pyval) \<Rightarrow> string \<Rightarrow> nat \<Rightarrow> string \<Rightarrow> pydict" where
  "process_json_data loads overflow room json_string =
     (case process_json_data_try loads overflow room json_string of
        Inr d \<Rightarrow> d
      | Inl (JSONDecodeError m) \<Rightarrow>
          [(''success'', VBool False),
           (''error'', VStr (''Invalid JSON: '' @ m)),
           (''valid'', VBool False)]
      | Inl e \<Rightarrow>
          [(''success'', VBool False),
           (''error'', VStr (''Processing error: '' @ str_exn e))])"


section \<open>The environment of the handlers\<close>

text \<open>
  Everything the handlers call outside the file: \<^verbatim>\<open>json\<close>, \<^verbatim>\<open>pathlib\<close>, the file system,
  \<^verbatim>\<open>datetime\<close> and \<^verbatim>\<open>httpx\<close>, and the interpreter's stack bound where a handler is
  called (\<open>recursion_room\<close>, \<open>recursion_error\<close>). The state of the outside world is a value of type \<open>'w\<close>;
  a call that can fail returns the exception it raises, and a call that writes returns the
  new world together with its outcome (a failed write may still have changed the world).
  Paths are kept as the strings \<^verbatim>\<open>str(path)\<close> gives.
\<close>

record response =
  status_code :: int
  json :: "exn + pyval"

record stat_result =
  st_size :: int
  st_mtime :: "64 word"

record 'w env =
  json_loads :: "string \<Rightarrow> exn + pyval"
  recursion_room :: nat
  recursion_error :: string
  joinpath :: "string \<Rightarrow> string \<Rightarrow> string"
  path_name :: "string \<Rightarrow> string"
  path_exists :: "'w \<Rightarrow> string \<Rightarrow> exn + bool"
  path_is_file :: "'w \<Rightarrow> string \<Rightarrow> exn + bool"
  path_stat :: "'w \<Rightarrow> string \<Rightarrow> exn + stat_result"
  path_iterdir :: "'w \<Rightarrow> string \<Rightarrow> exn + string list"
  path_unlink :: "'w \<Rightarrow> string \<Rightarrow> (exn + unit) \<times> 'w"
  write_text :: "'w \<Rightarrow> string \<Rightarrow> string \<Rightarrow> (exn + unit) \<times> 'w"
  read_text :: "'w \<Rightarrow> string \<Rightarrow> exn + string"
  fromtimestamp_isoformat :: "64 word \<Rightarrow> exn + string"
  client_aenter :: "'w \<Rightarrow> exn option"
  client_get :: "'w \<Rightarrow> string \<Rightarrow> (string \<times> string) list \<Rightarrow> exn + response"
  client_aexit :: "'w \<Rightarrow> exn option"

text \<open>\<^verbatim>\<open>WORK_DIR = Path("./mcp_workspace")\<close>, as \<^verbatim>\<open>str\<close> prints it.\<close>

definition WORK_DIR :: string where
  "WORK_DIR = ''mcp_workspace''"


section \<open>File operations\<close>

text \<open>\<^verbatim>\<open>create_file(filename, content)\<close>, lines 31-65.\<close>

definition create_file_try :: "'w env \<Rightarrow> 'w \<Rightarrow> string \<Rightarrow> string \<Rightarrow> (exn + pydict) \<times> 'w" where
  "create_file_try env w filename content =
     (let file_path = joinpath env WORK_DIR filename in
      case path_exists env w file_path of
        Inl e \<Rightarrow> (Inl e, w)
      | Inr True \<Rightarrow>
          (Inr [(''success'', VBool False),
                (''error'', VStr (''File '' @ filename @ '' already exists'')),
                (''path'', VStr file_path)], w)
      | Inr False \<Rightarrow>
          (case write_text env w file_path content of
             (Inl e, w') \<Rightarrow> (Inl e, w')
           | (Inr u, w') \<Rightarrow>
               (Inr [(''success'', VBool True),
                     (''message'', VStr (''File '' @ filename @ '' created successfully'')),
                     (''path'', VStr file_path),
                     (''size'', VInt (int (length content)))], w')))"

definition create_file :: "'w env \<Rightarrow> 'w \<Rightarrow> string \<Rightarrow> string \<Rightarrow> pydict \<times> 'w" where
  "create_file env w filename content =
     (case create_file_try env w filename content of
        (Inr d, w') \<Rightarrow> (d, w')
      | (Inl e, w') \<Rightarrow>
          ([(''success'', VBool False),
            (''error'', VStr (''Failed to create file: '' @ str_exn e))], w'))"

text \<open>\<^verbatim>\<open>read_file(filename)\<close>, lines 68-100.\<close>

definition read_file_try :: "'w env \<Rightarrow> 'w \<Rightarrow> string \<Rightarrow> exn + pydict" where
  "read_file_try env w filename =
     (let file_path = joinpath env WORK_DIR filename in
      bind_exn (path_exists env w file_path) (\<lambda>ex.
        if \<not> ex then
          Inr [(''success'', VBool False),
               (''error'', VStr (''File '' @ filename @ '' does not exist''))]
        else
          bind_exn (read_text env w file_path) (\<lambda>content.
          bind_exn (path_stat env w file_path) (\<lambda>st.
          bind_exn (fromtimestamp_isoformat env (st_mtime st)) (\<lambda>modified.
            Inr [(''success'', VBool True),
                 (''filename'', VStr filename),
                 (''content'', VStr content),
                 (''size'', VInt (int (length content))),
                 (''modified'', VStr modified)])))))"

definition read_file :: "'w env \<Rightarrow> 'w \<Rightarrow> string \<Rightarrow> pydict" where
  "read_file env w filename =
     (case read_file_try env w filename of
        Inr d \<Rightarrow> d
      | Inl e \<Rightarrow>
          [(''success'', VBool False),
           (''error'', VStr (''Failed to read file: '' @ str_exn e))])"

text \<open>
  \<^verbatim>\<open>list_files()\<close>, lines 102-131. \<open>list_files_loop\<close> is the \<^verbatim>\<open>for\<close> loop over
  \<^verbatim>\<open>WORK_DIR.iterdir()\<close>, with the list \<^verbatim>\<open>files\<close> built so far.
\<close>

fun list_files_loop :: "'w env \<Rightarrow> 'w \<Rightarrow> string list \<Rightarrow> pyval list \<Rightarrow> exn + pyval list" where
  "list_files_loop env w [] files = Inr files"
| "list_files_loop env w (file_path # rest) files =
     bind_exn (path_is_file env w file_path) (\<lambda>isf.
       if isf then
         bind_exn (path_stat env w file_path) (\<lambda>st.
         bind_exn (fromtimestamp_isoformat env (st_mtime st)) (\<lambda>modified.
           list_files_loop env w rest
             (files @ [VDict [(''name'', VStr (path_name env file_path)),
                              (''size'', VInt (st_size st)),
                              (''modified'', VStr modified),
                              (''path'', VStr file_path)]])))
       else list_files_loop env w rest files)"

definition list_files_try :: "'w env \<Rightarrow> 'w \<Rightarrow> exn + pydict" where
  "list_files_try env w =
     bind_exn (path_iterdir env w WORK_DIR) (\<lambda>entries.
     bind_exn (list_files_loop env w entries []) (\<lambda>files.
       Inr [(''success'', VBool True),
            (''files'', VList files),
            (''count'', VInt (int (length files))),
            (''workspace'', VStr WORK_DIR)]))"

definition list_files :: "'w env \<Rightarrow> 'w \<Rightarrow> pydict" where
  "list_files env w =
     (case list_files_try env w of
        Inr d \<Rightarrow> d
      | Inl e \<Rightarrow>
          [(''success'', VBool False),
           (''error'', VStr (''Failed to list files: '' @ str_exn e))])"

text \<open>\<^verbatim>\<open>delete_file(filename)\<close>, lines 133-162.\<close>

definition delete_file_try :: "'w env \<Rightarrow> 'w \<Rightarrow> string \<Rightarrow> (exn + pydict) \<times> 'w" where
  "delete_file_try env w filename =
     (let file_path = joinpath env WORK_DIR filename in
      case path_exists env w file_path of
        Inl e \<Rightarrow> (Inl e, w)
      | Inr False \<Rightarrow>
          (Inr [(''success'', VBool False),
                (''error'', VStr (''File '' @ filename @ '' does not exist''))], w)
      | Inr True \<Rightarrow>
          (case path_unlink env w file_path of
             (Inl e, w') \<Rightarrow> (Inl e, w')
           | (Inr u, w') \<Rightarrow>
               (Inr [(''success'', VBool True),
                     (''message'', VStr (''File '' @ filename @ '' deleted successfully''))], w')))"

definition delete_file :: "'w env \<Rightarrow> 'w \<Rightarrow> string \<Rightarrow> pydict \<times> 'w" where
  "delete_file env w filename =
     (case delete_file_try env w filename of
        (Inr d, w') \<Rightarrow> (d, w')
      | (Inl e, w') \<Rightarrow>
          ([(''success'', VBool False),
            (''error'', VStr (''Failed to delete file: '' @ str_exn e))], w'))"


section \<open>External lookups\<close>

text \<open>
  \<^verbatim>\<open>async with httpx.AsyncClient() as client: body\<close>. Entering may raise, and then the body
  does not run; leaving runs after the body, whether it returned or raised, and an
  exception raised on leaving replaces the body's outcome.
\<close>

definition with_client :: "'w env \<Rightarrow> 'w \<Rightarrow> (exn + 'a) \<Rightarrow> exn + 'a" where
  "with_client env w body =
     (case client_aenter env w of
        Some e \<Rightarrow> Inl e
      | None \<Rightarrow> (case client_aexit env w of Some e \<Rightarrow> Inl e | None \<Rightarrow> body))"

text \<open>
  \<^verbatim>\<open>get_weather(city)\<close>, lines 166-214. \<open>get_weather_live\<close> is the branch for status 200,
  \<open>get_weather_try\<close> the body of the \<^verbatim>\<open>try\<close>, \<open>get_weather_fallback\<close> the dict of the
  \<^verbatim>\<open>except\<close> clause.
\<close>

definition get_weather_live :: "response \<Rightarrow> exn + pydict" where
  "get_weather_live resp =
     bind_exn (json resp) (\<lambda>data.
     bind_exn (py_get data ''name'' VNone) (\<lambda>city.
     bind_exn (bind_exn (py_get data ''sys'' (VDict [])) (\<lambda>s. py_get s ''country'' VNone)) (\<lambda>country.
     bind_exn (bind_exn (py_get data ''main'' (VDict [])) (\<lambda>m. py_get m ''temp'' VNone)) (\<lambda>temperature.
     bind_exn (bind_exn (bind_exn (py_get data ''weather'' (VList [VDict []])) py_getitem0)
                 (\<lambda>x. py_get x ''description'' VNone)) (\<lambda>description.
     bind_exn (bind_exn (py_get data ''main'' (VDict [])) (\<lambda>m. py_get m ''humidity'' VNone)) (\<lambda>humidity.
     bind_exn (bind_exn (py_get data ''main'' (VDict [])) (\<lambda>m. py_get m ''pressure'' VNone)) (\<lambda>pressure.
       Inr [(''success'', VBool True),
            (''city'', city),
            (''country'', country),
            (''temperature'', temperature),
            (''description'', description),
            (''humidity'', humidity),
            (''pressure'', pressure)])))))))"

definition get_weather_try :: "'w env \<Rightarrow> 'w \<Rightarrow> string \<Rightarrow> exn + pydict" where
  "get_weather_try env w city =
     (let url = ''https://api.openweathermap.org/data/2.5/weather'';
          params = [(''q'', city), (''appid'', ''demo_key''), (''units'', ''metric'')]
      in with_client env w
           (bind_exn (client_get env w url params) (\<lambda>resp.
              if status_code resp = 200 then get_weather_live resp
              else Inr [(''success'', VBool False),
                        (''error'', VStr (''Weather API error: '' @ str_int (status_code resp)))])))"

definition get_weather_fallback :: "string \<Rightarrow> pydict" where
  "get_weather_fallback city =
     [(''success'', VBool True),
      (''city'', VStr city),
      (''temperature'', VInt 22),
      (''description'', VStr ''partly cloudy''),
      (''humidity'', VInt 65),
      (''pressure'', VInt 1013),
      (''note'', VStr ''Demo data - API key needed for real data'')]"

definition get_weather :: "'w env \<Rightarrow> 'w \<Rightarrow> string \<Rightarrow> pydict" where
  "get_weather env w city =
     (case get_weather_try env w city of
        Inr d \<Rightarrow> d
      | Inl e \<Rightarrow> get_weather_fallback city)"

text \<open>
  \<^verbatim>\<open>get_random_quote()\<close>, lines 217-256. The \<^verbatim>\<open>except\<close> clause itself calls
  \<^verbatim>\<open>random.choice\<close> and indexes the chosen dict, so \<open>get_random_quote_fallback\<close> may raise
  as far as its type goes, and so may \<open>get_random_quote\<close>; \<open>r\<close> is the draw of the
  random generator.
\<close>

definition get_random_quote_live :: "response \<Rightarrow> exn + pydict" where
  "get_random_quote_live resp =
     bind_exn (json resp) (\<lambda>data.
     bind_exn (py_get data ''content'' VNone) (\<lambda>quote.
     bind_exn (py_get data ''author'' VNone) (\<lambda>author.
     bind_exn (py_get data ''tags'' (VList [])) (\<lambda>tags.
       Inr [(''success'', VBool True),
            (''quote'', quote),
            (''author'', author),
            (''tags'', tags)]))))"

definition get_random_quote_try :: "'w env \<Rightarrow> 'w \<Rightarrow> exn + pydict" where
  "get_random_quote_try env w =
     (let url = ''https://api.quotable.io/random''
      in with_client env w
           (bind_exn (client_get env w url []) (\<lambda>resp.
              if status_code resp = 200 then get_random_quote_live resp
              else Inr [(''success'', VBool False),
                        (''error'', VStr (''Quote API error: '' @ str_int (status_code resp)))])))"

definition fallback_quotes :: "pydict list" where
  "fallback_quotes =
     [[(''quote'', VStr ''The only way to do great work is to love what you do.''),
       (''author'', VStr ''Steve Jobs'')],
      [(''quote'', VStr ''Innovation distinguishes between a leader and a follower.''),
       (''author'', VStr ''Steve Jobs'')],
      [(''quote'', VStr (''Life is what happens to you while you'' @ [CHR 0x27] @ ''re busy making other plans.'')),
       (''author'', VStr ''John Lennon'')]]"

definition get_random_quote_fallback :: "nat \<Rightarrow> exn + pydict" where
  "get_random_quote_fallback r =
     bind_exn (random_choice r fallback_quotes) (\<lambda>selected.
     bind_exn (py_getitem selected ''quote'') (\<lambda>quote.
     bind_exn (py_getitem selected ''author'') (\<lambda>author.
       Inr [(''success'', VBool True),
            (''quote'', quote),
            (''author'', author),
            (''note'', VStr ''Fallback quote - API unavailable'')])))"

definition get_random_quote :: "'w env \<Rightarrow> nat \<Rightarrow> 'w \<Rightarrow> exn + pydict" where
  "get_random_quote env r w =
     (case get_random_quote_try env w of
        Inr d \<Rightarrow> Inr d
      | Inl e \<Rightarrow> get_random_quote_fallback r)"


section \<open>The registered tools\<close>

text \<open>
  The seven functions under \<^verbatim>\<open>@mcp.tool()\<close>, in the order of the file, and a call of one
  of them with its arguments. \<open>call_tool\<close> runs the handler: its result is the dict the
  handler returns, or the exception that leaves it, and the world after the call.
\<close>

datatype tool_call =
    CreateFile string string
  | ReadFile string
  | ListFiles
  | DeleteFile string
  | GetWeather string
  | GetRandomQuote
  | ProcessJsonData string

definition registered_tools :: "string list" where
  "registered_tools =
     [''create_file'', ''read_file'', ''list_files'', ''delete_file'',
      ''get_weather'', ''get_random_quote'', ''process_json_data'']"

fun tool_name :: "tool_call \<Rightarrow> string" where
  "tool_name (CreateFile filename content) = ''create_file''"
| "tool_name (ReadFile filename) = ''read_file''"
| "tool_name ListFiles = ''list_files''"
| "tool_name (DeleteFile filename) = ''delete_file''"
| "tool_name (GetWeather city) = ''get_weather''"
| "tool_name GetRandomQuote = ''get_random_quote''"
| "tool_name (ProcessJsonData json_string) = ''process_json_data''"

fun call_tool :: "'w env \<Rightarrow> nat \<Rightarrow> 'w \<Rightarrow> tool_call \<Rightarrow> (exn + pydict) \<times> 'w" where
  "call_tool env r w (CreateFile filename content) =
     (case create_file env w filename content of (d, w') \<Rightarrow> (Inr d, w'))"
| "call_tool env r w (ReadFile filename) = (Inr (read_file env w filename), w)"
| "call_tool env r w ListFiles = (Inr (list_files env w), w)"
| "call_tool env r w (DeleteFile filename) =
     (case delete_file env w filename of (d, w') \<Rightarrow> (Inr d, w'))"
| "call_tool env r w (GetWeather city) = (Inr (get_weather env w city), w)"
| "call_tool env r w GetRandomQuote = (get_random_quote env r w, w)"
| "call_tool env r w (ProcessJsonData json_string) =
     (Inr (process_json_data (json_loads env) (recursion_error env) (recursion_room env)
             json_string), w)"


section \<open>The server information resource\<close>

text \<open>
  \<^verbatim>\<open>get_server_info()\<close>, lines 314-335: the f-string, line by line, with
  \<^verbatim>\<open>str(WORK_DIR)\<close> and \<^verbatim>\<open>datetime.now().isoformat()\<close> (the parameter \<open>now\<close>) filled in.
\<close>

definition newline :: string where
  "newline = [CHR 0x0A]"

definition get_server_info :: "string \<Rightarrow> string" where
  "get_server_info now =
     newline
     @ ''    Advanced MCP Server Information'' @ newline
     @ ''    =============================='' @ newline
     @ ''    '' @ newline
     @ ''    Server Name: Advanced File & API Server'' @ newline
     @ ''    Workspace: '' @ WORK_DIR @ newline
     @ ''    Started: '' @ now @ newline
     @ ''    '' @ newline
     @ ''    Available Tools:'' @ newline
     @ ''    - File Operations: create_file, read_file, list_files, delete_file'' @ newline
     @ ''    - External APIs: get_weather, get_random_quote'' @ newline
     @ ''    - Data Processing: process_json_data'' @ newline
     @ ''    '' @ newline
     @ ''    Available Resources:'' @ newline
     @ ''    - server://info - This information page'' @ newline
     @ ''    '' @ newline
     @ ''    Available Prompts:'' @ newline
     @ ''    - data_analysis_prompt - For analyzing data files'' @ newline
     @ ''    - api_integration_prompt - For API integration guidance'' @ newline
     @ ''    ''"

text \<open>
  Reading a catalog off a text: \<open>after_first needle t\<close> is what follows the first
  occurrence of \<open>needle\<close> in \<open>t\<close>, and \<open>names_in_order names t\<close> holds when the names
  occur in \<open>t\<close> one after the other, in the order of the list.
\<close>

fun is_prefix :: "string \<Rightarrow> string \<Rightarrow> bool" where
  "is_prefix [] t = True"
| "is_prefix (c # cs) [] = False"
| "is_prefix (c # cs) (d # ds) = (c = d \<and> is_prefix cs ds)"

fun after_first :: "string \<Rightarrow> string \<Rightarrow> string option" where
  "after_first needle [] = (if needle = [] then Some [] else None)"
| "after_first needle (c # cs) =
     (if is_prefix needle (c # cs) then Some (drop (length needle) (c # cs))
      else after_first needle cs)"

fun names_in_order :: "string list \<Rightarrow> string \<Rightarrow> bool" where
  "names_in_order [] t = True"
| "names_in_order (n # ns) t =
     (case after_first n t of None \<Rightarrow> False | Some rest \<Rightarrow> names_in_order ns rest)"


section \<open>The shape of a result\<close>

text \<open>
  The source returns flat dicts: \<^verbatim>\<open>success\<close>, then \<^verbatim>\<open>error\<close> or the keys of the result,
  and \<^verbatim>\<open>note\<close> on a fallback. The payload of a result is every key other than these three.
  \<open>envelope_exclusive\<close> is the envelope invariant as the specification words it;
  \<open>envelope_labelled\<close> is the part of it that every handler keeps.
\<close>

definition has_key :: "pydict \<Rightarrow> string \<Rightarrow> bool" where
  "has_key d k = (k \<in> set (map fst d))"

definition payload_keys :: "pydict \<Rightarrow> string list" where
  "payload_keys d =
     filter (\<lambda>k. k \<noteq> ''success'' \<and> k \<noteq> ''error'' \<and> k \<noteq> ''note'') (map fst d)"

definition envelope_exclusive :: "pydict \<Rightarrow> bool" where
  "envelope_exclusive d =
     (case map_of d ''success'' of
        Some (VBool b) \<Rightarrow> (has_key d ''error'' = (\<not> b)) \<and> ((payload_keys d \<noteq> []) = b)
      | _ \<Rightarrow> False)"

definition envelope_labelled :: "pydict \<Rightarrow> bool" where
  "envelope_labelled d =
     (case map_of d ''success'' of
        Some (VBool b) \<Rightarrow> (has_key d ''error'' = (\<not> b)) \<and> (b \<longrightarrow> payload_keys d \<noteq> [])
      | _ \<Rightarrow> False)"

text \<open>The shape of an outcome: the value of \<^verbatim>\<open>success\<close> and the keys, in order.\<close>

definition shape :: "exn + pydict \<Rightarrow> (pyval option \<times> string list) option" where
  "shape res = (case res of Inl e \<Rightarrow> None | Inr d \<Rightarrow> Some (map_of d ''success'', map fst d))"


section \<open>An in-memory environment\<close>

text \<open>
  An instance of the environment on which the handlers run on concrete inputs: the file
  system is a list of paths with their contents, every GET has the outcome \<open>mem_net\<close>,
  and \<^verbatim>\<open>json.loads\<close> is a table of texts with their parsed values (any other text is
  rejected with the \<^verbatim>\<open>JSONDecodeError\<close> of the empty text). The stack has room for 300
  nested calls of the depth counter.
\<close>

record mem_world =
  mem_files :: "(string \<times> string) list"
  mem_net :: "exn + response"

definition loads_table :: "(string \<times> pyval) list \<Rightarrow> string \<Rightarrow> exn + pyval" where
  "loads_table tbl s =
     (case map_of tbl s of
        Some v \<Rightarrow> Inr v
      | None \<Rightarrow> Inl (JSONDecodeError ''Expecting value: line 1 column 1 (char 0)''))"

definition mem_env :: "(string \<times> pyval) list \<Rightarrow> mem_world env" where
  "mem_env tbl =
     \<lparr> json_loads = loads_table tbl,
       recursion_room = 300,
       recursion_error = ''maximum recursion depth exceeded'',
       joinpath = (\<lambda>d f. d @ ''/'' @ f),
       path_name = (\<lambda>p. rev (takeWhile (\<lambda>c. c \<noteq> CHR ''/'') (rev p))),
       path_exists = (\<lambda>w p. Inr (p \<in> set (map fst (mem_files w)))),
       path_is_file = (\<lambda>w p. Inr (p \<in> set (map fst (mem_files w)))),
       path_stat = (\<lambda>w p.
         (case map_of (mem_files w) p of
            Some c \<Rightarrow> Inr \<lparr> st_size = int (length c), st_mtime = 0 \<rparr>
          | None \<Rightarrow> Inl (OSError ''No such file or directory''))),
       path_iterdir = (\<lambda>w p. Inr (map fst (mem_files w))),
       path_unlink = (\<lambda>w p.
         (Inr (), w\<lparr> mem_files := filter (\<lambda>kv. fst kv \<noteq> p) (mem_files w) \<rparr>)),
       write_text = (\<lambda>w p c.
         (Inr (), w\<lparr> mem_files := (p, c) # filter (\<lambda>kv. fst kv \<noteq> p) (mem_files w) \<rparr>)),
       read_text = (\<lambda>w p.
         (case map_of (mem_files w) p of
            Some c \<Rightarrow> Inr c
          | None \<Rightarrow> Inl (OSError ''No such file or directory''))),
       fromtimestamp_isoformat = (\<lambda>t. Inr ''1970-01-01T00:00:00''),
       client_aenter = (\<lambda>w. None),
       client_get = (\<lambda>w url params. mem_net w),
       client_aexit = (\<lambda>w. None) \<rparr>"


section \<open>Registry and dispatcher of the specification\<close>

text \<open>
  Modelled from the spec: the Registry and the Dispatcher (\<^verbatim>\<open>register\<close>, \<^verbatim>\<open>lookup\<close>,
  \<^verbatim>\<open>list\<close>, \<^verbatim>\<open>invoke\<close>) of its sections 3, 4.1 and 4.2. The source has neither: its
  functions are handed to the framework by \<^verbatim>\<open>@mcp.tool()\<close>, and registration, argument
  validation and dispatch happen inside \<^verbatim>\<open>mcp.server.fastmcp\<close>, which is not part of the
  file. The definitions below follow the specification's words.
\<close>

datatype param_kind = KString | KNumber | KBoolean | KObject | KArray

record param =
  param_name :: string
  required :: bool
  kind_of :: param_kind

record fault =
  transient :: bool
  description :: string

record error_info =
  kind :: string
  message :: string
  detail :: "string option"

record envelope =
  success :: bool
  payload :: "pyval option"
  error :: "error_info option"
  annotation :: "string option"

record 's descriptor =
  name :: string
  parameterSchema :: "param list"
  handler :: "(string \<rightharpoonup> pyval) \<Rightarrow> 's \<Rightarrow> (fault + pyval) \<times> 's"
  fallback :: "((string \<rightharpoonup> pyval) \<Rightarrow> 's \<Rightarrow> (fault + pyval) \<times> 's) option"

record request =
  operation :: string
  arguments :: "string \<rightharpoonup> pyval"

datatype registry_error = DuplicateCapability | UnknownCapability | RegistrationClosed

record 's registry =
  entries :: "'s descriptor list"
  serving :: bool

text \<open>
  Modelled from the spec: \<^verbatim>\<open>register\<close> fails with \<^verbatim>\<open>DuplicateCapability\<close> if the name is
  already present, otherwise inserts; the phase flag rejects it after the first
  \<^verbatim>\<open>lookup\<close> (the specification names no error for that; here \<open>RegistrationClosed\<close>).
  The entries are kept in registration order, which is what \<^verbatim>\<open>list()\<close> gives.
\<close>

definition register :: "'s descriptor \<Rightarrow> 's registry \<Rightarrow> (registry_error + unit) \<times> 's registry" where
  "register d reg =
     (if name d \<in> set (map name (entries reg)) then (Inl DuplicateCapability, reg)
      else if serving reg then (Inl RegistrationClosed, reg)
      else (Inr (), reg\<lparr> entries := entries reg @ [d] \<rparr>))"

definition lookup :: "string \<Rightarrow> 's registry \<Rightarrow> (registry_error + 's descriptor) \<times> 's registry" where
  "lookup n reg =
     ((case find (\<lambda>d. name d = n) (entries reg) of
         None \<Rightarrow> Inl UnknownCapability
       | Some d \<Rightarrow> Inr d),
      reg\<lparr> serving := True \<rparr>)"


text \<open>
  Modelled from the spec: validation of the arguments against the schema (section 4.2,
  step 2, and 4.4). A parameter offends when it is required and absent, or present with
  a value of another kind; numbers accept integer and float, object accepts any mapping.
\<close>

fun kind_matches :: "param_kind \<Rightarrow> pyval \<Rightarrow> bool" where
  "kind_matches KString (VStr s) = True"
| "kind_matches KNumber (VInt i) = True"
| "kind_matches KNumber (VFloat f) = True"
| "kind_matches KBoolean (VBool b) = True"
| "kind_matches KObject (VDict kvs) = True"
| "kind_matches KArray (VList xs) = True"
| "kind_matches k v = False"

definition offending :: "(string \<rightharpoonup> pyval) \<Rightarrow> param \<Rightarrow> bool" where
  "offending args p =
     (case args (param_name p) of
        None \<Rightarrow> required p
      | Some v \<Rightarrow> \<not> kind_matches (kind_of p) v)"

definition first_offending :: "param list \<Rightarrow> (string \<rightharpoonup> pyval) \<Rightarrow> param option" where
  "first_offending schema args = find (offending args) schema"

definition failure :: "string \<Rightarrow> string \<Rightarrow> envelope" where
  "failure k m =
     \<lparr> success = False, payload = None,
       error = Some \<lparr> kind = k, message = m, detail = None \<rparr>, annotation = None \<rparr>"

text \<open>
  Modelled from the spec: \<^verbatim>\<open>invoke\<close>, section 4.2, steps 1 to 5. The handlers work on a
  state \<open>'s\<close>, so that running one can be told from not running it. The message of an
  \<^verbatim>\<open>invalid_arguments\<close> error is the name of the first offending parameter.
\<close>

definition invoke :: "'s registry \<Rightarrow> request \<Rightarrow> 's \<Rightarrow> (envelope \<times> 's) \<times> 's registry" where
  "invoke reg req s =
     (case lookup (operation req) reg of
        (Inl e, reg') \<Rightarrow> ((failure ''unknown_operation'' (operation req), s), reg')
      | (Inr d, reg') \<Rightarrow>
          (case first_offending (parameterSchema d) (arguments req) of
             Some p \<Rightarrow> ((failure ''invalid_arguments'' (param_name p), s), reg')
           | None \<Rightarrow>
               (case handler d (arguments req) s of
                  (Inr v, s') \<Rightarrow>
                    ((\<lparr> success = True, payload = Some v, error = None, annotation = None \<rparr>, s'),
                     reg')
                | (Inl f, s') \<Rightarrow>
                    (case (if transient f then fallback d else None) of
                       None \<Rightarrow> ((failure ''handler_error'' (description f), s'), reg')
                     | Some fb \<Rightarrow>
                         (case fb (arguments req) s' of
                            (Inr v, s'') \<Rightarrow>
                              ((\<lparr> success = True, payload = Some v, error = None,
                                  annotation = Some ''served from fallback'' \<rparr>, s''), reg')
                          | (Inl f', s'') \<Rightarrow>
                              ((failure ''fallback_failed'' (description f'), s''), reg'))))))"

text \<open>A world with one file in the workspace and no network.\<close>

definition demo_world :: mem_world where
  "demo_world = \<lparr> mem_files = [(''mcp_workspace/notes.txt'', ''old'')],
                  mem_net = Inl (OtherException ''All connection attempts failed'') \<rparr>"


text \<open>A world whose network answers with status 500.\<close>

definition failing_world :: mem_world where
  "failing_world =
     \<lparr> mem_files = [],
       mem_net = Inr \<lparr> status_code = 500,
                       json = Inl (JSONDecodeError ''Expecting value: line 1 column 1 (char 0)'') \<rparr> \<rparr>"

text \<open>
  \<open>nest n\<close> is the value \<^verbatim>\<open>json.loads\<close> returns for \<open>n + 1\<close> opening brackets followed
  by \<open>n + 1\<close> closing ones, the text \<open>brackets n\<close>.
\<close>

fun nest :: "nat \<Rightarrow> pyval" where
  "nest 0 = VList []"
| "nest (Suc n) = VList [nest n]"

definition brackets :: "nat \<Rightarrow> string" where
  "brackets n = replicate (Suc n) (CHR ''['') @ replicate (Suc n) (CHR '']'')"

text \<open>A world whose network answers with a weather report.\<close>

definition live_world :: mem_world where
  "live_world =
     \<lparr> mem_files = [],
       mem_net = Inr \<lparr> status_code = 200,
                       json = Inr (VDict
                         [(''name'', VStr ''Paris''),
                          (''sys'', VDict [(''country'', VStr ''FR'')]),
                          (''main'', VDict [(''temp'', VInt 18), (''humidity'', VInt 70),
                                           (''pressure'', VInt 1009)]),
                          (''weather'', VList [VDict [(''description'', VStr ''light rain'')]])]) \<rparr> \<rparr>"

text \<open>A world whose network answers with a quote.\<close>

definition quote_world :: mem_world where
  "quote_world =
     \<lparr> mem_files = [],
       mem_net = Inr \<lparr> status_code = 200,
                       json = Inr (VDict
                         [(''content'', VStr ''Simplicity is the ultimate sophistication.''),
                          (''author'', VStr ''Leonardo da Vinci''),
                          (''tags'', VList [VStr ''wisdom''])]) \<rparr> \<rparr>"

text \<open>
  The capability of the specification's concrete scenario: \<^verbatim>\<open>echo\<close>, with the required
  string parameter \<^verbatim>\<open>text\<close>; its handler counts its runs in the state.
\<close>

definition echo :: "nat descriptor" where
  "echo =
     \<lparr> name = ''echo'',
       parameterSchema = [\<lparr> param_name = ''text'', required = True, kind_of = KString \<rparr>],
       handler = (\<lambda>args n.
         (case args ''text'' of
            Some v \<Rightarrow> (Inr (VDict [(''echoed'', v)]), Suc n)
          | None \<Rightarrow> (Inl \<lparr> transient = False, description = ''no text'' \<rparr>, Suc n))),
       fallback = None \<rparr>"

definition empty_registry :: "nat registry" where
  "empty_registry = \<lparr> entries = [], serving = False \<rparr>"


section \<open>Properties of the handlers\<close>

subsection \<open>Auxiliary facts\<close>

lemma bind_exn_Inr [simp]: "bind_exn m f = Inr y \<longleftrightarrow> (\<exists>x. m = Inr x \<and> f x = Inr y)"
  by (cases m) (simp_all add: bind_exn_def)

lemma bind_exn_Inl [simp]:
  "bind_exn m f = Inl e \<longleftrightarrow> (m = Inl e \<or> (\<exists>x. m = Inr x \<and> f x = Inl e))"
  by (cases m) (simp_all add: bind_exn_def)

lemmas envelope_defs = envelope_labelled_def has_key_def payload_keys_def

lemma create_file_labelled: "envelope_labelled (fst (create_file env w filename content))"
  by (auto simp: create_file_def create_file_try_def envelope_defs Let_def
           split: sum.splits prod.splits bool.splits)

lemma read_file_labelled: "envelope_labelled (read_file env w filename)"
  by (auto simp: read_file_def read_file_try_def envelope_defs Let_def
           split: sum.splits if_splits)

lemma list_files_labelled: "envelope_labelled (list_files env w)"
  by (auto simp: list_files_def list_files_try_def envelope_defs
           split: sum.splits)

lemma delete_file_labelled: "envelope_labelled (fst (delete_file env w filename))"
  by (auto simp: delete_file_def delete_file_try_def envelope_defs Let_def
           split: sum.splits prod.splits bool.splits)

lemma with_client_Inr: "with_client env w body = Inr d \<Longrightarrow> body = Inr d"
  by (auto simp: with_client_def split: option.splits)

lemma get_weather_live_keys:
  "get_weather_live resp = Inr d \<Longrightarrow>
     map fst d = [''success'', ''city'', ''country'', ''temperature'', ''description'',
                  ''humidity'', ''pressure'']
     \<and> map_of d ''success'' = Some (VBool True)"
  by (auto simp: get_weather_live_def)

lemma get_weather_try_keys:
  "get_weather_try env w city = Inr d \<Longrightarrow>
     (map fst d = [''success'', ''city'', ''country'', ''temperature'', ''description'',
                   ''humidity'', ''pressure'']
      \<and> map_of d ''success'' = Some (VBool True))
     \<or> (map fst d = [''success'', ''error''] \<and> map_of d ''success'' = Some (VBool False))"
  by (auto simp: get_weather_try_def Let_def dest!: with_client_Inr get_weather_live_keys
           split: if_splits)

lemma get_weather_labelled: "envelope_labelled (get_weather env w city)"
  by (auto simp: get_weather_def get_weather_fallback_def envelope_defs
           split: sum.splits dest!: get_weather_try_keys)

lemma get_random_quote_live_keys:
  "get_random_quote_live resp = Inr d \<Longrightarrow>
     map fst d = [''success'', ''quote'', ''author'', ''tags'']
     \<and> map_of d ''success'' = Some (VBool True)"
  by (auto simp: get_random_quote_live_def)

lemma get_random_quote_try_keys:
  "get_random_quote_try env w = Inr d \<Longrightarrow>
     (map fst d = [''success'', ''quote'', ''author'', ''tags'']
      \<and> map_of d ''success'' = Some (VBool True))
     \<or> (map fst d = [''success'', ''error''] \<and> map_of d ''success'' = Some (VBool False))"
  by (auto simp: get_random_quote_try_def Let_def dest!: with_client_Inr get_random_quote_live_keys
           split: if_splits)

lemma get_random_quote_fallback_returns:
  "\<exists>q a. get_random_quote_fallback r =
     Inr [(''success'', VBool True), (''quote'', q), (''author'', a),
          (''note'', VStr ''Fallback quote - API unavailable'')]"
proof -
  have "r mod 3 = 0 \<or> r mod 3 = 1 \<or> r mod 3 = 2" by arith
  then show ?thesis
    by (auto simp: get_random_quote_fallback_def random_choice_def fallback_quotes_def
                   py_getitem_def bind_exn_def)
qed

lemma get_random_quote_labelled:
  "\<exists>d. get_random_quote env r w = Inr d \<and> envelope_labelled d"
proof (cases "get_random_quote_try env w")
  case (Inl e)
  with get_random_quote_fallback_returns [of r] show ?thesis
    by (auto simp: get_random_quote_def envelope_defs)
next
  case (Inr d)
  with get_random_quote_try_keys [OF Inr] show ?thesis
    by (auto simp: get_random_quote_def envelope_defs)
qed

lemma process_json_data_labelled:
  "envelope_labelled (process_json_data loads overflow room s)"
  by (auto simp: process_json_data_def process_json_data_try_def envelope_defs
           split: sum.splits exn.splits)

subsection \<open>Nesting depth\<close>

lemma collect_map_cases:
  "(\<And>x. x \<in> set xs \<Longrightarrow> f x = (if P x then Inr (g x) else Inl e)) \<Longrightarrow>
   collect (map f xs) = (if (\<forall>x \<in> set xs. P x) then Inr (map g xs) else Inl e)"
  by (induction xs) auto

lemma py_max_shift:
  assumes "xs \<noteq> []"
  shows "py_max (map (\<lambda>x. c + d x) xs) = Inr (c + Max (set (map d xs)))"
proof -
  from assms obtain y ys where xs: "xs = y # ys" by (cases xs) auto
  have "fold max (map (\<lambda>x. c + d x) ys) (c + d y) = Max (set (map (\<lambda>x. c + d x) (y # ys)))"
    by (simp only: list.map Max.set_eq_fold)
  also have "\<dots> = Max ((\<lambda>v. c + v) ` set (map d (y # ys)))"
    by (simp add: image_image)
  also have "\<dots> = c + Max (set (map d (y # ys)))"
    by (rule hom_Max_commute [symmetric]) auto
  finally show ?thesis by (simp add: xs)
qed

lemma nesting_depth_nonneg: "0 \<le> nesting_depth v"
proof (induction v)
  case (VList xs)
  show ?case
  proof (cases "xs = []")
    case False
    then obtain y where y: "y \<in> set xs" by (cases xs) auto
    with VList.IH have "0 \<le> nesting_depth y" by simp
    also from y have "nesting_depth y \<le> Max (set (map nesting_depth xs))" by simp
    finally show ?thesis using False by simp
  qed simp
next
  case (VDict kvs)
  show ?case
  proof (cases "kvs = []")
    case False
    then obtain kv where kv: "kv \<in> set kvs" by (cases kvs) auto
    have "0 \<le> nesting_depth (snd kv)"
      by (rule VDict.IH [OF kv]) (cases kv, simp)
    also from kv have "nesting_depth (snd kv) \<le> Max (set (map (\<lambda>kv. nesting_depth (snd kv)) kvs))"
      by simp
    finally show ?thesis using False by simp
  qed simp
qed simp_all

lemma container_depth_le:
  assumes "xs \<noteq> []" and nonneg: "\<And>x. x \<in> set xs \<Longrightarrow> 0 \<le> d x"
  shows "1 + Max (set (map d xs)) \<le> int room
         \<longleftrightarrow> room \<noteq> 0 \<and> (\<forall>x \<in> set xs. d x \<le> int (room - 1))"
proof (cases room)
  case 0
  from assms(1) obtain y where y: "y \<in> set xs" by (cases xs) auto
  then have "d y \<le> Max (set (map d xs))" by simp
  with nonneg [OF y] have "0 \<le> Max (set (map d xs))" by linarith
  with 0 show ?thesis by simp
next
  case (Suc r)
  from assms(1) have "Max (set (map d xs)) \<le> int r \<longleftrightarrow> (\<forall>x \<in> set xs. d x \<le> int r)"
    by (simp add: Max_le_iff)
  with Suc show ?thesis by simp
qed

lemma count_nested_levels_bounded:
  "count_nested_levels overflow room v l
     = (if nesting_depth v \<le> int room then Inr (l + nesting_depth v)
        else Inl (RecursionError overflow))"
proof (induction v arbitrary: room l)
  case (VList xs)
  show ?case
  proof (cases "xs = []")
    case True
    then show ?thesis by simp
  next
    case False
    let ?f = "\<lambda>item. if room = 0 then Inl (RecursionError overflow)
                     else count_nested_levels overflow (room - 1) item (l + 1)"
    let ?P = "\<lambda>item. room \<noteq> 0 \<and> nesting_depth item \<le> int (room - 1)"
    have "collect (map ?f xs)
          = (if (\<forall>x \<in> set xs. ?P x) then Inr (map (\<lambda>item. (l + 1) + nesting_depth item) xs)
             else Inl (RecursionError overflow))"
      by (rule collect_map_cases) (simp add: VList.IH)
    moreover have "(\<forall>x \<in> set xs. ?P x) \<longleftrightarrow> nesting_depth (VList xs) \<le> int room"
    proof -
      from False obtain y where "y \<in> set xs" by (cases xs) auto
      then have "(\<forall>x \<in> set xs. ?P x)
                 \<longleftrightarrow> room \<noteq> 0 \<and> (\<forall>x \<in> set xs. nesting_depth x \<le> int (room - 1))"
        by blast
      also have "\<dots> \<longleftrightarrow> 1 + Max (set (map nesting_depth xs)) \<le> int room"
        by (rule container_depth_le [OF False, symmetric]) (rule nesting_depth_nonneg)
      finally show ?thesis using False by simp
    qed
    ultimately show ?thesis
      using False py_max_shift [of xs "l + 1" nesting_depth] by simp
  qed
next
  case (VDict kvs)
  show ?case
  proof (cases "kvs = []")
    case True
    then show ?thesis by simp
  next
    case False
    let ?d = "\<lambda>kv. nesting_depth (snd kv)"
    let ?f = "\<lambda>kv. if room = 0 then Inl (RecursionError overflow)
                   else count_nested_levels overflow (room - 1) (snd kv) (l + 1)"
    let ?P = "\<lambda>kv. room \<noteq> 0 \<and> ?d kv \<le> int (room - 1)"
    have ih: "count_nested_levels overflow r (snd kv) k
                = (if ?d kv \<le> int r then Inr (k + ?d kv) else Inl (RecursionError overflow))"
      if "kv \<in> set kvs" for kv r k
      by (rule VDict.IH [OF that]) (cases kv, simp)
    have "collect (map ?f kvs)
          = (if (\<forall>kv \<in> set kvs. ?P kv) then Inr (map (\<lambda>kv. (l + 1) + ?d kv) kvs)
             else Inl (RecursionError overflow))"
      by (rule collect_map_cases) (simp add: ih)
    moreover have "(\<forall>kv \<in> set kvs. ?P kv) \<longleftrightarrow> nesting_depth (VDict kvs) \<le> int room"
    proof -
      from False obtain y where "y \<in> set kvs" by (cases kvs) auto
      then have "(\<forall>kv \<in> set kvs. ?P kv)
                 \<longleftrightarrow> room \<noteq> 0 \<and> (\<forall>kv \<in> set kvs. ?d kv \<le> int (room - 1))"
        by blast
      also have "\<dots> \<longleftrightarrow> 1 + Max (set (map ?d kvs)) \<le> int room"
        by (rule container_depth_le [OF False, symmetric]) (rule nesting_depth_nonneg)
      finally show ?thesis using False by simp
    qed
    ultimately show ?thesis
      using False py_max_shift [of kvs "l + 1" ?d] by simp
  qed
qed simp_all

lemma nesting_depth_nest: "nesting_depth (nest n) = int n"
  by (induction n) simp_all

text \<open>
  Claim C7, as amended. For every JSON value \<open>v\<close>, \<^verbatim>\<open>_count_nested_levels(v, 0)\<close> ends:
  when the nesting depth of \<open>v\<close> (0 for a value that is no container and for an empty
  dict or list, 1 plus the maximum depth of the children for a non-empty dict or list) is
  within the room the stack leaves, it returns that depth, and \<^verbatim>\<open>max\<close> never sees an
  empty sequence; when the value is nested deeper it raises \<^verbatim>\<open>RecursionError\<close>. It never
  returns another number.
\<close>

theorem count_nested_levels_correct:
  "count_nested_levels overflow room v 0
     = (if nesting_depth v \<le> int room then Inr (nesting_depth v)
        else Inl (RecursionError overflow))"
  using count_nested_levels_bounded [of overflow room v 0] by simp

text \<open>
  Claim C7 as stated fails on a value that \<^verbatim>\<open>json.loads\<close> returns: for 400 lists nested
  in one another the recursion does not fit the stack (here with room for 300 nested
  calls), and the function raises \<^verbatim>\<open>RecursionError\<close> where the depth is 399.
\<close>

theorem count_nested_levels_deep_raises:
  "count_nested_levels ''maximum recursion depth exceeded'' 300 (nest 399) 0
     = Inl (RecursionError ''maximum recursion depth exceeded'')
   \<and> nesting_depth (nest 399) = 399"
  using nesting_depth_nest [of 399]
  by (simp add: count_nested_levels_bounded)

theorem count_nested_levels_correct_witness:
  "count_nested_levels ''maximum recursion depth exceeded'' 300
     (VList [VInt 1, VDict [(''a'', VList [VList []])], VList []]) 0 = Inr 3
   \<and> count_nested_levels ''maximum recursion depth exceeded'' 2
     (VList [VInt 1, VDict [(''a'', VList [VList []])], VList []]) 0
     = Inl (RecursionError ''maximum recursion depth exceeded'')"
  using count_nested_levels_correct [of "''maximum recursion depth exceeded''" 300
          "VList [VInt 1, VDict [(''a'', VList [VList []])], VList []]"]
        count_nested_levels_correct [of "''maximum recursion depth exceeded''" 2
          "VList [VInt 1, VDict [(''a'', VList [VList []])], VList []]"]
  by simp

subsection \<open>Totality and the shape of the results\<close>

lemma envelope_labelled_success:
  "envelope_labelled d \<Longrightarrow> \<exists>b. map_of d ''success'' = Some (VBool b)"
  by (auto simp: envelope_labelled_def split: option.splits pyval.splits)

text \<open>
  Claim C1. Every registered operation is total at the invocation boundary: for every
  environment (whatever the file system, the network or \<^verbatim>\<open>json.loads\<close> return or raise),
  every world and every argument, the handler returns a dict with a boolean \<^verbatim>\<open>success\<close>
  key, and no exception leaves it. The faults are the instances of \<^verbatim>\<open>Exception\<close>, which
  the \<^verbatim>\<open>except\<close> clauses of the source catch; \<^verbatim>\<open>KeyboardInterrupt\<close>, \<^verbatim>\<open>SystemExit\<close>
  and the cancellation of a task are not.
\<close>

theorem call_tool_total:
  "\<exists>d b. fst (call_tool env r w c) = Inr d \<and> map_of d ''success'' = Some (VBool b)"
proof (cases c)
  case (CreateFile filename content)
  then show ?thesis
    using envelope_labelled_success [OF create_file_labelled [of env w filename content]]
    by (auto split: prod.splits)
next
  case (ReadFile filename)
  then show ?thesis
    using envelope_labelled_success [OF read_file_labelled [of env w filename]] by simp
next
  case ListFiles
  then show ?thesis
    using envelope_labelled_success [OF list_files_labelled [of env w]] by simp
next
  case (DeleteFile filename)
  then show ?thesis
    using envelope_labelled_success [OF delete_file_labelled [of env w filename]]
    by (auto split: prod.splits)
next
  case (GetWeather city)
  then show ?thesis
    using envelope_labelled_success [OF get_weather_labelled [of env w city]] by simp
next
  case GetRandomQuote
  then show ?thesis
    using get_random_quote_labelled [of env r w] envelope_labelled_success by auto
next
  case (ProcessJsonData json_string)
  then show ?thesis
    using envelope_labelled_success
            [OF process_json_data_labelled
                  [of "json_loads env" "recursion_error env" "recursion_room env" json_string]]
    by simp
qed

text \<open>
  Claim C2, as amended. For every operation and every input the result has an \<^verbatim>\<open>error\<close>
  key exactly when \<^verbatim>\<open>success\<close> is false, and a successful result carries payload keys
  (and no \<^verbatim>\<open>error\<close>). A failure may carry further keys beside \<^verbatim>\<open>error\<close>.
\<close>

theorem call_tool_envelope_labelled:
  "\<exists>d. fst (call_tool env r w c) = Inr d \<and> envelope_labelled d"
proof (cases c)
  case (CreateFile filename content)
  then show ?thesis using create_file_labelled [of env w filename content]
    by (auto split: prod.splits)
next
  case (DeleteFile filename)
  then show ?thesis using delete_file_labelled [of env w filename]
    by (auto split: prod.splits)
next
  case GetRandomQuote
  then show ?thesis using get_random_quote_labelled [of env r w] by simp
qed (simp_all add: read_file_labelled list_files_labelled get_weather_labelled
       process_json_data_labelled)

lemmas mem_simps = mem_env_def demo_world_def loads_table_def WORK_DIR_def Let_def

text \<open>
  Claim C2 as stated fails: \<^verbatim>\<open>create_file\<close> on a file that exists returns \<^verbatim>\<open>error\<close>
  together with \<^verbatim>\<open>path\<close> (lines 46-50), a key that is part of the payload of its
  successful result (line 58), so payload and error are not mutually exclusive.
\<close>

theorem create_file_existing_not_exclusive:
  "fst (create_file (mem_env []) demo_world ''notes.txt'' ''new'')
     = [(''success'', VBool False),
        (''error'', VStr ''File notes.txt already exists''),
        (''path'', VStr ''mcp_workspace/notes.txt'')]
   \<and> \<not> envelope_exclusive (fst (create_file (mem_env []) demo_world ''notes.txt'' ''new''))"
  by (simp add: create_file_def create_file_try_def mem_simps envelope_exclusive_def
        has_key_def payload_keys_def)

theorem call_tool_envelope_labelled_witness:
  "fst (call_tool (mem_env []) 0 demo_world (CreateFile ''todo.txt'' ''milk''))
     = Inr [(''success'', VBool True),
            (''message'', VStr ''File todo.txt created successfully''),
            (''path'', VStr ''mcp_workspace/todo.txt''),
            (''size'', VInt 4)]
   \<and> envelope_labelled
        [(''success'', VBool True),
         (''message'', VStr ''File todo.txt created successfully''),
         (''path'', VStr ''mcp_workspace/todo.txt''),
         (''size'', VInt 4)]"
  using call_tool_envelope_labelled [of "mem_env []" 0 demo_world "CreateFile ''todo.txt'' ''milk''"]
  by (simp add: create_file_def create_file_try_def mem_simps)

lemma get_weather_try_no_note:
  "get_weather_try env w city = Inr d \<Longrightarrow> \<not> has_key d ''note''"
  by (auto simp: has_key_def dest!: get_weather_try_keys)

lemma get_random_quote_try_no_note:
  "get_random_quote_try env w = Inr d \<Longrightarrow> \<not> has_key d ''note''"
  by (auto simp: has_key_def dest!: get_random_quote_try_keys)

subsection \<open>Fallbacks\<close>

text \<open>
  Claim C3. For \<^verbatim>\<open>get_weather\<close> and \<^verbatim>\<open>get_random_quote\<close>: whenever the body of the
  \<^verbatim>\<open>try\<close> raises, the result has \<^verbatim>\<open>success\<close> true and a \<^verbatim>\<open>note\<close> key; whenever it
  returns, the result is what it returned and has no \<^verbatim>\<open>note\<close> key. So a degraded result
  is told from a live one by \<^verbatim>\<open>note\<close>.
\<close>

theorem fallback_labelled:
  "(get_weather_try env w city = Inl e \<longrightarrow>
      map_of (get_weather env w city) ''success'' = Some (VBool True)
      \<and> has_key (get_weather env w city) ''note'')
   \<and> (get_weather_try env w city = Inr d \<longrightarrow>
      get_weather env w city = d \<and> \<not> has_key d ''note'')
   \<and> (get_random_quote_try env w = Inl e' \<longrightarrow>
      (\<exists>q. get_random_quote env r w = Inr q
           \<and> map_of q ''success'' = Some (VBool True) \<and> has_key q ''note''))
   \<and> (get_random_quote_try env w = Inr d' \<longrightarrow>
      get_random_quote env r w = Inr d' \<and> \<not> has_key d' ''note'')"
proof -
  have weather_fault: "map_of (get_weather env w city) ''success'' = Some (VBool True)
      \<and> has_key (get_weather env w city) ''note''"
    if "get_weather_try env w city = Inl e"
    using that by (simp add: get_weather_def get_weather_fallback_def has_key_def)
  have weather_live: "get_weather env w city = d \<and> \<not> has_key d ''note''"
    if "get_weather_try env w city = Inr d"
    using that get_weather_try_no_note [OF that] by (simp add: get_weather_def)
  have quote_fault: "\<exists>q. get_random_quote env r w = Inr q
      \<and> map_of q ''success'' = Some (VBool True) \<and> has_key q ''note''"
    if "get_random_quote_try env w = Inl e'"
    using that get_random_quote_fallback_returns [of r]
    by (auto simp: get_random_quote_def has_key_def)
  have quote_live: "get_random_quote env r w = Inr d' \<and> \<not> has_key d' ''note''"
    if "get_random_quote_try env w = Inr d'"
    using that get_random_quote_try_no_note [OF that] by (simp add: get_random_quote_def)
  from weather_fault weather_live quote_fault quote_live show ?thesis by blast
qed

lemmas weather_simps =
  get_weather_def get_weather_try_def get_weather_live_def get_weather_fallback_def
  with_client_def bind_exn_def has_key_def

theorem fallback_labelled_witness:
  "get_weather_try (mem_env []) demo_world ''Paris''
     = Inl (OtherException ''All connection attempts failed'')
   \<and> map_of (get_weather (mem_env []) demo_world ''Paris'') ''success'' = Some (VBool True)
   \<and> has_key (get_weather (mem_env []) demo_world ''Paris'') ''note''
   \<and> get_weather_try (mem_env []) live_world ''Paris''
     = Inr [(''success'', VBool True), (''city'', VStr ''Paris''), (''country'', VStr ''FR''),
            (''temperature'', VInt 18), (''description'', VStr ''light rain''),
            (''humidity'', VInt 70), (''pressure'', VInt 1009)]
   \<and> \<not> has_key (get_weather (mem_env []) live_world ''Paris'') ''note''
   \<and> get_random_quote (mem_env []) 1 demo_world
     = Inr [(''success'', VBool True),
            (''quote'', VStr ''Innovation distinguishes between a leader and a follower.''),
            (''author'', VStr ''Steve Jobs''),
            (''note'', VStr ''Fallback quote - API unavailable'')]
   \<and> get_random_quote (mem_env []) 1 quote_world
     = Inr [(''success'', VBool True),
            (''quote'', VStr ''Simplicity is the ultimate sophistication.''),
            (''author'', VStr ''Leonardo da Vinci''),
            (''tags'', VList [VStr ''wisdom''])]"
  using fallback_labelled [of "mem_env []" demo_world "''Paris''"
          "OtherException ''All connection attempts failed''" "[]" e' 0 d']
        fallback_labelled [of "mem_env []" live_world "''Paris''" e
          "[(''success'', VBool True), (''city'', VStr ''Paris''), (''country'', VStr ''FR''),
            (''temperature'', VInt 18), (''description'', VStr ''light rain''),
            (''humidity'', VInt 70), (''pressure'', VInt 1009)]" e' 0 d']
        fallback_labelled [of "mem_env []" quote_world "''Paris''" e d e' 1
          "[(''success'', VBool True),
            (''quote'', VStr ''Simplicity is the ultimate sophistication.''),
            (''author'', VStr ''Leonardo da Vinci''),
            (''tags'', VList [VStr ''wisdom''])]"]
  by (simp add: weather_simps mem_simps live_world_def quote_world_def get_random_quote_def
        get_random_quote_try_def get_random_quote_live_def get_random_quote_fallback_def
        random_choice_def fallback_quotes_def py_getitem_def)

subsection \<open>Repetition\<close>

lemma shape_get_random_quote_fallback:
  "shape (get_random_quote_fallback r1) = shape (get_random_quote_fallback r2)"
  using get_random_quote_fallback_returns [of r1] get_random_quote_fallback_returns [of r2]
  by (auto simp: shape_def)

lemma with_client_cong:
  "client_aenter env w = client_aenter env' w' \<Longrightarrow> client_aexit env w = client_aexit env' w' \<Longrightarrow>
   with_client env w body = with_client env' w' body"
  by (auto simp: with_client_def split: option.splits)

lemma get_weather_try_network:
  assumes "client_aenter env w = client_aenter env' w'"
      and "client_get env w = client_get env' w'"
      and "client_aexit env w = client_aexit env' w'"
  shows "get_weather_try env w city = get_weather_try env' w' city"
  using assms(2) with_client_cong [OF assms(1) assms(3)]
  by (simp add: get_weather_try_def)

lemma get_random_quote_try_network:
  assumes "client_aenter env w = client_aenter env' w'"
      and "client_get env w = client_get env' w'"
      and "client_aexit env w = client_aexit env' w'"
  shows "get_random_quote_try env w = get_random_quote_try env' w'"
  using assms(2) with_client_cong [OF assms(1) assms(3)]
  by (simp add: get_random_quote_try_def)

lemma shape_get_random_quote:
  assumes "get_random_quote_try env w = get_random_quote_try env' w'"
  shows "shape (get_random_quote env r1 w) = shape (get_random_quote env' r2 w')"
proof (cases "get_random_quote_try env' w'")
  case (Inl e)
  with assms shape_get_random_quote_fallback [of r1 r2] show ?thesis
    by (simp add: get_random_quote_def)
next
  case (Inr d)
  with assms show ?thesis by (simp add: get_random_quote_def)
qed

text \<open>
  Claim C6, as amended. The outcome of an invocation is a function of the operation, its
  arguments, what the outside world answers and, for the fallback of
  \<^verbatim>\<open>get_random_quote\<close>, the draw of the random generator. Two invocations with the same
  arguments that meet the same world give the same \<^verbatim>\<open>success\<close> value and the same keys
  whatever the draws, and leave the same world. The two lookups depend on the world only
  through the three calls of the HTTP client: where these answer alike, \<^verbatim>\<open>get_weather\<close>
  returns the identical result and \<^verbatim>\<open>get_random_quote\<close> a result of the same shape.
  \<^verbatim>\<open>process_json_data\<close> depends on \<^verbatim>\<open>json.loads\<close> and the stack bound only, and leaves
  the world as it is: two invocations on the same string return identical results,
  whatever the file system, the network and the draws.
\<close>

theorem call_tool_repeatable:
  "shape (fst (call_tool env r1 w c)) = shape (fst (call_tool env r2 w c))
   \<and> snd (call_tool env r1 w c) = snd (call_tool env r2 w c)
   \<and> (client_aenter env w = client_aenter env' w'
        \<and> client_get env w = client_get env' w'
        \<and> client_aexit env w = client_aexit env' w' \<longrightarrow>
      get_weather env w city = get_weather env' w' city
      \<and> shape (get_random_quote env r1 w) = shape (get_random_quote env' r2 w'))
   \<and> (json_loads env' = json_loads env
        \<and> recursion_room env' = recursion_room env
        \<and> recursion_error env' = recursion_error env \<longrightarrow>
      call_tool env' r2 w' (ProcessJsonData s)
        = (fst (call_tool env r1 w (ProcessJsonData s)), w'))"
proof -
  have same_shape: "shape (fst (call_tool env r1 w c)) = shape (fst (call_tool env r2 w c))"
    by (cases c) (simp_all add: shape_get_random_quote)
  have same_world: "snd (call_tool env r1 w c) = snd (call_tool env r2 w c)"
    by (cases c) simp_all
  have lookups: "get_weather env w city = get_weather env' w' city
      \<and> shape (get_random_quote env r1 w) = shape (get_random_quote env' r2 w')"
    if "client_aenter env w = client_aenter env' w'"
       "client_get env w = client_get env' w'"
       "client_aexit env w = client_aexit env' w'"
    using get_weather_try_network [OF that, of city]
          shape_get_random_quote [OF get_random_quote_try_network [OF that], of r1 r2]
    by (simp add: get_weather_def)
  from same_shape same_world lookups show ?thesis by simp
qed

text \<open>
  Claim C6 as stated fails: the same operation with the same arguments, invoked twice
  with no state shared between the two calls, gives \<^verbatim>\<open>success\<close> true with the weather
  keys when the service answers 200 and \<^verbatim>\<open>success\<close> false with \<^verbatim>\<open>error\<close> when it answers
  500 (lines 188-203).
\<close>

theorem call_tool_shape_follows_network:
  "shape (fst (call_tool (mem_env []) 0 live_world (GetWeather ''Paris'')))
     = Some (Some (VBool True),
             [''success'', ''city'', ''country'', ''temperature'', ''description'',
              ''humidity'', ''pressure''])
   \<and> shape (fst (call_tool (mem_env []) 0 failing_world (GetWeather ''Paris'')))
     = Some (Some (VBool False), [''success'', ''error''])
   \<and> shape (fst (call_tool (mem_env []) 0 live_world (GetWeather ''Paris'')))
     \<noteq> shape (fst (call_tool (mem_env []) 0 failing_world (GetWeather ''Paris'')))"
  by (simp add: shape_def mem_simps live_world_def failing_world_def with_client_def
        bind_exn_def get_weather_def get_weather_try_def get_weather_live_def)

theorem call_tool_repeatable_witness:
  "fst (call_tool (mem_env []) 0 demo_world GetRandomQuote)
     \<noteq> fst (call_tool (mem_env []) 2 demo_world GetRandomQuote)
   \<and> shape (fst (call_tool (mem_env []) 0 demo_world GetRandomQuote))
     = Some (Some (VBool True), [''success'', ''quote'', ''author'', ''note''])
   \<and> shape (fst (call_tool (mem_env []) 2 demo_world GetRandomQuote))
     = Some (Some (VBool True), [''success'', ''quote'', ''author'', ''note''])
   \<and> get_weather (mem_env []) live_world ''Paris''
     = get_weather (mem_env []) (live_world\<lparr> mem_files := [(''mcp_workspace/a.txt'', ''x'')] \<rparr>)
         ''Paris''
   \<and> call_tool (mem_env []) 2 live_world (ProcessJsonData [])
     = (fst (call_tool (mem_env []) 0 demo_world (ProcessJsonData [])), live_world)"
  using call_tool_repeatable [of "mem_env []" 0 demo_world GetRandomQuote 2
          "mem_env []" live_world "''Paris''" "[]"]
        call_tool_repeatable [of "mem_env []" 0 live_world GetRandomQuote 2
          "mem_env []" "live_world\<lparr> mem_files := [(''mcp_workspace/a.txt'', ''x'')] \<rparr>"
          "''Paris''" "[]"]
  by (simp add: shape_def mem_simps with_client_def bind_exn_def get_random_quote_def
        get_random_quote_try_def get_random_quote_fallback_def random_choice_def
        fallback_quotes_def py_getitem_def)

subsection \<open>The JSON analyzer\<close>

lemma json_analysis_bounded:
  "(nesting_depth data \<le> int room \<longrightarrow> (\<exists>a. json_analysis overflow room data s = Inr a))
   \<and> (\<not> nesting_depth data \<le> int room \<longrightarrow>
        json_analysis overflow room data s = Inl (RecursionError overflow))"
  by (simp add: json_analysis_def count_nested_levels_bounded bind_exn_def)

text \<open>
  Claim C8, as amended. \<^verbatim>\<open>process_json_data(s)\<close> returns \<^verbatim>\<open>success\<close> true, with \<^verbatim>\<open>data\<close>
  the parsed value and \<^verbatim>\<open>valid\<close> true, exactly when \<^verbatim>\<open>json.loads(s)\<close> returns a value
  whose nesting fits the stack of \<^verbatim>\<open>_count_nested_levels\<close>. When \<^verbatim>\<open>json.loads\<close> raises
  \<^verbatim>\<open>JSONDecodeError\<close> the result is \<^verbatim>\<open>success\<close> false, \<^verbatim>\<open>valid\<close> false and an error
  beginning with \<^verbatim>\<open>Invalid JSON\<close>. When \<^verbatim>\<open>json.loads\<close> raises any other exception, or
  returns a value nested too deep for \<^verbatim>\<open>_count_nested_levels\<close>, the result is
  \<^verbatim>\<open>success\<close> false with an error beginning with \<^verbatim>\<open>Processing error\<close>, and no \<^verbatim>\<open>valid\<close>
  key.
\<close>

theorem process_json_data_parse_iff:
  "(loads s = Inr v \<and> nesting_depth v \<le> int room \<longrightarrow>
      (\<exists>a. json_analysis overflow room v s = Inr a
           \<and> process_json_data loads overflow room s
               = [(''success'', VBool True), (''data'', v), (''analysis'', a),
                  (''valid'', VBool True)]))
   \<and> (loads s = Inr v \<and> \<not> nesting_depth v \<le> int room \<longrightarrow>
      process_json_data loads overflow room s
        = [(''success'', VBool False), (''error'', VStr (''Processing error: '' @ overflow))])
   \<and> (loads s = Inl (JSONDecodeError m) \<longrightarrow>
      process_json_data loads overflow room s
        = [(''success'', VBool False), (''error'', VStr (''Invalid JSON: '' @ m)),
           (''valid'', VBool False)])
   \<and> (loads s = Inl e \<and> (\<forall>m'. e \<noteq> JSONDecodeError m') \<longrightarrow>
      process_json_data loads overflow room s
        = [(''success'', VBool False), (''error'', VStr (''Processing error: '' @ str_exn e))])
   \<and> (map_of (process_json_data loads overflow room s) ''success'' = Some (VBool True)
        \<longleftrightarrow> (\<exists>v'. loads s = Inr v' \<and> nesting_depth v' \<le> int room))"
proof -
  have ok: "\<exists>a. json_analysis overflow room v' s = Inr a
             \<and> process_json_data loads overflow room s
               = [(''success'', VBool True), (''data'', v'), (''analysis'', a),
                  (''valid'', VBool True)]"
    if "loads s = Inr v'" "nesting_depth v' \<le> int room" for v'
    using that json_analysis_bounded [of v' room overflow s]
    by (auto simp: process_json_data_def process_json_data_try_def bind_exn_def)
  have deep: "process_json_data loads overflow room s
        = [(''success'', VBool False), (''error'', VStr (''Processing error: '' @ overflow))]"
    if "loads s = Inr v'" "\<not> nesting_depth v' \<le> int room" for v'
    using that json_analysis_bounded [of v' room overflow s]
    by (simp add: process_json_data_def process_json_data_try_def bind_exn_def)
  have bad: "process_json_data loads overflow room s
        = [(''success'', VBool False), (''error'', VStr (''Invalid JSON: '' @ m')),
           (''valid'', VBool False)]" if "loads s = Inl (JSONDecodeError m')" for m'
    using that by (simp add: process_json_data_def process_json_data_try_def bind_exn_def)
  have other: "process_json_data loads overflow room s
        = [(''success'', VBool False), (''error'', VStr (''Processing error: '' @ str_exn e'))]"
    if "loads s = Inl e'" "\<forall>m'. e' \<noteq> JSONDecodeError m'" for e'
    using that
    by (cases e') (simp_all add: process_json_data_def process_json_data_try_def bind_exn_def)
  have iff: "map_of (process_json_data loads overflow room s) ''success'' = Some (VBool True)
        \<longleftrightarrow> (\<exists>v'. loads s = Inr v' \<and> nesting_depth v' \<le> int room)"
  proof (cases "loads s")
    case (Inl e')
    then show ?thesis
      by (cases e') (simp_all add: process_json_data_def process_json_data_try_def bind_exn_def)
  next
    case (Inr v')
    show ?thesis
    proof (cases "nesting_depth v' \<le> int room")
      case True
      with ok [OF Inr True] Inr show ?thesis by auto
    next
      case False
      with deep [OF Inr False] Inr show ?thesis by simp
    qed
  qed
  from ok deep bad other iff show ?thesis by blast
qed

text \<open>
  Claim C8 as stated fails where parsing fails with an exception that is not a
  \<^verbatim>\<open>JSONDecodeError\<close>: \<^verbatim>\<open>json.loads\<close> of a hundred thousand opening brackets raises
  \<^verbatim>\<open>RecursionError\<close>, which the second \<^verbatim>\<open>except\<close> clause (lines 293-297) reports as a
  processing error, without \<^verbatim>\<open>valid\<close>.
\<close>

theorem process_json_data_recursion_error:
  "process_json_data
     (\<lambda>s. Inl (RecursionError ''maximum recursion depth exceeded while decoding a JSON array from a unicode string''))
     ''maximum recursion depth exceeded'' 300
     (replicate 100000 (CHR ''[''))
   = [(''success'', VBool False),
      (''error'', VStr ''Processing error: maximum recursion depth exceeded while decoding a JSON array from a unicode string'')]
   \<and> map_of (process_json_data
        (\<lambda>s. Inl (RecursionError ''maximum recursion depth exceeded while decoding a JSON array from a unicode string''))
        ''maximum recursion depth exceeded'' 300
        (replicate 100000 (CHR ''[''))) ''valid'' \<noteq> Some (VBool False)"
  by (simp add: process_json_data_def process_json_data_try_def bind_exn_def)

theorem process_json_data_parse_iff_witness:
  "process_json_data (loads_table [(''[[1], []]'', VList [VList [VInt 1], VList []])])
       ''maximum recursion depth exceeded'' 300 ''[[1], []]''
     = [(''success'', VBool True),
        (''data'', VList [VList [VInt 1], VList []]),
        (''analysis'', VDict [(''type'', VStr ''list''), (''size'', VInt 9), (''keys'', VNone),
                              (''length'', VInt 2), (''nested_levels'', VInt 2)]),
        (''valid'', VBool True)]
   \<and> process_json_data (loads_table [(brackets 399, nest 399)])
       ''maximum recursion depth exceeded'' 300 (brackets 399)
     = [(''success'', VBool False),
        (''error'', VStr ''Processing error: maximum recursion depth exceeded'')]
   \<and> process_json_data (loads_table []) ''maximum recursion depth exceeded'' 300 []
     = [(''success'', VBool False),
        (''error'', VStr ''Invalid JSON: Expecting value: line 1 column 1 (char 0)''),
        (''valid'', VBool False)]
   \<and> process_json_data
       (\<lambda>s. Inl (ValueError ''Exceeds the limit (4300 digits) for integer string conversion: value has 5000 digits; use sys.set_int_max_str_digits() to increase the limit''))
       ''maximum recursion depth exceeded'' 300 (replicate 5000 (CHR ''1''))
     = [(''success'', VBool False),
        (''error'', VStr ''Processing error: Exceeds the limit (4300 digits) for integer string conversion: value has 5000 digits; use sys.set_int_max_str_digits() to increase the limit'')]"
proof -
  let ?small = "VList [VList [VInt 1], VList []]"
  have small: "nesting_depth ?small = 2" by simp
  from process_json_data_parse_iff
         [of "loads_table [(''[[1], []]'', ?small)]" "''[[1], []]''" ?small 300
             "''maximum recursion depth exceeded''" m e]
  have 1: "process_json_data (loads_table [(''[[1], []]'', ?small)])
       ''maximum recursion depth exceeded'' 300 ''[[1], []]''
     = [(''success'', VBool True), (''data'', ?small),
        (''analysis'', VDict [(''type'', VStr ''list''), (''size'', VInt 9), (''keys'', VNone),
                              (''length'', VInt 2), (''nested_levels'', VInt 2)]),
        (''valid'', VBool True)]"
    by (auto simp: loads_table_def json_analysis_def count_nested_levels_bounded bind_exn_def)
  from process_json_data_parse_iff
         [of "loads_table [(brackets 399, nest 399)]" "brackets 399" "nest 399" 300
             "''maximum recursion depth exceeded''" m e]
       nesting_depth_nest [of 399]
  have 2: "process_json_data (loads_table [(brackets 399, nest 399)])
       ''maximum recursion depth exceeded'' 300 (brackets 399)
     = [(''success'', VBool False),
        (''error'', VStr ''Processing error: maximum recursion depth exceeded'')]"
    by (simp add: loads_table_def)
  from process_json_data_parse_iff
         [of "loads_table []" "[]" v 300 "''maximum recursion depth exceeded''"
             "''Expecting value: line 1 column 1 (char 0)''" e]
  have 3: "process_json_data (loads_table []) ''maximum recursion depth exceeded'' 300 []
     = [(''success'', VBool False),
        (''error'', VStr ''Invalid JSON: Expecting value: line 1 column 1 (char 0)''),
        (''valid'', VBool False)]"
    by (simp add: loads_table_def)
  let ?digits = "''Exceeds the limit (4300 digits) for integer string conversion: value has 5000 digits; use sys.set_int_max_str_digits() to increase the limit''"
  from process_json_data_parse_iff
         [of "\<lambda>s. Inl (ValueError ?digits)" "replicate 5000 (CHR ''1'')" v 300
             "''maximum recursion depth exceeded''" m "ValueError ?digits"]
  have 4: "process_json_data (\<lambda>s. Inl (ValueError ?digits))
       ''maximum recursion depth exceeded'' 300 (replicate 5000 (CHR ''1''))
     = [(''success'', VBool False), (''error'', VStr (''Processing error: '' @ ?digits))]"
    by simp
  from 1 2 3 4 show ?thesis by simp
qed

subsection \<open>Creating a file\<close>

text \<open>
  Claim C9. When the target path exists, \<^verbatim>\<open>create_file(filename, content)\<close> returns
  \<^verbatim>\<open>success\<close> false with the error \<^verbatim>\<open>File <filename> already exists\<close>, and the world is
  the one before the call: nothing is written, and every file reads as it did.
\<close>

theorem create_file_never_overwrites:
  assumes "path_exists env w (joinpath env WORK_DIR filename) = Inr True"
  shows "create_file env w filename content
           = ([(''success'', VBool False),
               (''error'', VStr (''File '' @ filename @ '' already exists'')),
               (''path'', VStr (joinpath env WORK_DIR filename))], w)
         \<and> read_text env (snd (create_file env w filename content)) p = read_text env w p"
  using assms by (simp add: create_file_def create_file_try_def Let_def)

theorem create_file_never_overwrites_witness:
  "create_file (mem_env []) demo_world ''notes.txt'' ''new''
     = ([(''success'', VBool False),
         (''error'', VStr ''File notes.txt already exists''),
         (''path'', VStr ''mcp_workspace/notes.txt'')], demo_world)
   \<and> read_text (mem_env []) (snd (create_file (mem_env []) demo_world ''notes.txt'' ''new''))
        ''mcp_workspace/notes.txt'' = Inr ''old''"
proof -
  have ex: "path_exists (mem_env []) demo_world (joinpath (mem_env []) WORK_DIR ''notes.txt'') = Inr True"
    by (simp add: mem_simps)
  from create_file_never_overwrites [OF ex, of "''new''" "''mcp_workspace/notes.txt''"]
  show ?thesis by (simp add: mem_simps)
qed

subsection \<open>The catalog of the information resource\<close>

lemma is_prefix_append: "is_prefix n (n @ r)"
  by (induction n) auto

lemma is_prefix_split: "is_prefix n t \<Longrightarrow> t = n @ drop (length n) t"
  by (induction n t rule: is_prefix.induct) auto

lemma after_first_split: "after_first n t = Some r \<Longrightarrow> \<exists>q. t = q @ n @ r"
proof (induction t)
  case Nil
  then show ?case by (auto split: if_splits)
next
  case (Cons c cs)
  show ?case
  proof (cases "is_prefix n (c # cs)")
    case True
    with Cons.prems have "r = drop (length n) (c # cs)" by simp
    with is_prefix_split [OF True] have "c # cs = [] @ n @ r" by simp
    then show ?thesis by blast
  next
    case False
    with Cons.prems have "after_first n cs = Some r" by simp
    from Cons.IH [OF this] obtain q where "cs = q @ n @ r" by blast
    then have "c # cs = (c # q) @ n @ r" by simp
    then show ?thesis by blast
  qed
qed

lemma after_first_append:
  "after_first n t = Some r \<Longrightarrow> \<exists>q. after_first n (p @ t) = Some (q @ r)"
proof (induction p)
  case Nil
  then have "after_first n ([] @ t) = Some ([] @ r)" by simp
  then show ?case by blast
next
  case (Cons c p)
  from Cons.IH [OF Cons.prems] obtain q where q: "after_first n (p @ t) = Some (q @ r)" by blast
  show ?case
  proof (cases "is_prefix n (c # p @ t)")
    case False
    with q show ?thesis by auto
  next
    case True
    from after_first_split [OF q] obtain u where u: "p @ t = u @ n @ q @ r" by blast
    have "length n \<le> length ((c # u) @ n)" by simp
    then have "drop (length n) (((c # u) @ n) @ (q @ r))
                 = drop (length n) ((c # u) @ n) @ (q @ r)"
      by (simp only: drop_append) simp
    with u have "drop (length n) (c # p @ t) = (drop (length n) ((c # u) @ n) @ q) @ r"
      by simp
    with True show ?thesis by (metis after_first.simps(2) append_Cons)
  qed
qed

lemma names_in_order_append: "names_in_order ns t \<Longrightarrow> names_in_order ns (p @ t)"
proof (induction ns arbitrary: t p)
  case Nil
  show ?case by simp
next
  case (Cons n ns)
  from Cons.prems obtain r where r: "after_first n t = Some r" and rest: "names_in_order ns r"
    by (auto split: option.splits)
  from after_first_append [OF r, of p] obtain q where "after_first n (p @ t) = Some (q @ r)"
    by blast
  with Cons.IH [OF rest, of q] show ?case by simp
qed


text \<open>
  Claim C10. The text of the server information resource names the seven registered
  operations one after the other in the order of their registration, whatever the start
  time printed before them; every tool that can be called is among them.
\<close>

theorem server_info_names_tools_in_order:
  "names_in_order registered_tools (get_server_info now)
   \<and> tool_name c \<in> set registered_tools
   \<and> length registered_tools = 7"
proof -
  define rest where "rest =
       ''    Available Tools:'' @ newline
     @ ''    - File Operations: create_file, read_file, list_files, delete_file'' @ newline
     @ ''    - External APIs: get_weather, get_random_quote'' @ newline
     @ ''    - Data Processing: process_json_data'' @ newline
     @ ''    '' @ newline
     @ ''    Available Resources:'' @ newline
     @ ''    - server://info - This information page'' @ newline
     @ ''    '' @ newline
     @ ''    Available Prompts:'' @ newline
     @ ''    - data_analysis_prompt - For analyzing data files'' @ newline
     @ ''    - api_integration_prompt - For API integration guidance'' @ newline
     @ ''    ''"
  define front where "front =
       newline
     @ ''    Advanced MCP Server Information'' @ newline
     @ ''    =============================='' @ newline
     @ ''    '' @ newline
     @ ''    Server Name: Advanced File & API Server'' @ newline
     @ ''    Workspace: '' @ WORK_DIR @ newline
     @ ''    Started: '' @ now @ newline
     @ ''    '' @ newline"
  have split: "get_server_info now = front @ rest"
    by (simp add: get_server_info_def front_def rest_def)
  have "names_in_order registered_tools rest"
    by (simp add: registered_tools_def rest_def newline_def)
  then have "names_in_order registered_tools (front @ rest)"
    by (rule names_in_order_append)
  with split have order: "names_in_order registered_tools (get_server_info now)"
    by simp
  have named: "tool_name c \<in> set registered_tools"
    by (cases c) (simp_all add: registered_tools_def)
  have "length registered_tools = 7"
    by (simp add: registered_tools_def)
  with order named show ?thesis by simp
qed

theorem server_info_names_tools_in_order_witness:
  "names_in_order registered_tools (get_server_info ''2024-05-01T12:00:00.000000'')
   \<and> after_first ''create_file'' (get_server_info ''2024-05-01T12:00:00.000000'')
       \<noteq> None"
  using server_info_names_tools_in_order [of "''2024-05-01T12:00:00.000000''" ListFiles]
  by (auto split: option.splits simp: registered_tools_def)

section \<open>Properties of the specification's registry and dispatcher\<close>



text \<open>
  Claim C4. When the request names a registered descriptor and omits one of its required
  parameters, \<^verbatim>\<open>invoke\<close> returns \<^verbatim>\<open>success\<close> false with the error kind
  \<^verbatim>\<open>invalid_arguments\<close> and the name of the first parameter of the schema that offends,
  and the handler's state is the one before the call: the handler was not run.
\<close>

theorem invoke_missing_required:
  assumes "fst (lookup (operation req) reg) = Inr d"
      and "p \<in> set (parameterSchema d)"
      and "required p"
      and "arguments req (param_name p) = None"
  shows "\<exists>i < length (parameterSchema d).
           offending (arguments req) (parameterSchema d ! i)
           \<and> (\<forall>j < i. \<not> offending (arguments req) (parameterSchema d ! j))
           \<and> fst (invoke reg req s)
               = (failure ''invalid_arguments'' (param_name (parameterSchema d ! i)), s)"
proof -
  from assms(3,4) have "offending (arguments req) p"
    by (simp add: offending_def)
  with assms(2) have "find (offending (arguments req)) (parameterSchema d) \<noteq> None"
    by (auto simp: find_None_iff)
  then obtain q where q: "find (offending (arguments req)) (parameterSchema d) = Some q"
    by blast
  then obtain i where i: "i < length (parameterSchema d)"
      "offending (arguments req) (parameterSchema d ! i)" "q = parameterSchema d ! i"
      "\<forall>j < i. \<not> offending (arguments req) (parameterSchema d ! j)"
    by (auto simp: find_Some_iff)
  from assms(1) q have "fst (invoke reg req s) = (failure ''invalid_arguments'' (param_name q), s)"
    by (auto simp: invoke_def first_offending_def lookup_def split: option.splits)
  with i show ?thesis by blast
qed

theorem invoke_missing_required_witness:
  "fst (invoke (snd (register echo empty_registry))
          \<lparr> operation = ''echo'', arguments = Map.empty \<rparr> 0)
     = (failure ''invalid_arguments'' ''text'', 0)
   \<and> fst (fst (invoke (snd (register echo empty_registry))
          \<lparr> operation = ''echo'', arguments = [''text'' \<mapsto> VStr ''hi''] \<rparr> 0))
     = \<lparr> success = True, payload = Some (VDict [(''echoed'', VStr ''hi'')]), error = None,
         annotation = None \<rparr>"
proof -
  let ?reg = "snd (register echo empty_registry)"
  let ?req = "\<lparr> operation = ''echo'', arguments = Map.empty \<rparr>"
  let ?p = "\<lparr> param_name = ''text'', required = True, kind_of = KString \<rparr>"
  have 1: "fst (lookup (operation ?req) ?reg) = Inr echo"
    by (simp add: lookup_def register_def empty_registry_def echo_def)
  have 2: "?p \<in> set (parameterSchema echo)" by (simp add: echo_def)
  have 3: "required ?p" by simp
  have 4: "arguments ?req (param_name ?p) = None" by simp
  from invoke_missing_required [OF 1 2 3 4, of 0] have
    "fst (invoke ?reg ?req 0) = (failure ''invalid_arguments'' ''text'', 0)"
    by (auto simp: echo_def)
  moreover have "fst (fst (invoke ?reg
          \<lparr> operation = ''echo'', arguments = [''text'' \<mapsto> VStr ''hi''] \<rparr> 0))
     = \<lparr> success = True, payload = Some (VDict [(''echoed'', VStr ''hi'')]), error = None,
         annotation = None \<rparr>"
    by (simp add: invoke_def lookup_def register_def empty_registry_def echo_def
          first_offending_def offending_def)
  ultimately show ?thesis by simp
qed

end
